theory Spec2Isabelle
  imports Main "HOL-Library.Word"
begin

section \<open>JavaScript strings\<close>

text \<open>
  A JavaScript string is a sequence of UTF-16 code units. The string methods used by the
  converter (\<open>split\<close>, \<open>pop\<close>, \<open>join\<close>, \<open>replace\<close>, \<open>trim\<close>, \<open>slice\<close>) all work on
  code units, so a string is a list of 16-bit words.
\<close>

type_synonym jsstring = "16 word list"

definition js :: "string \<Rightarrow> jsstring" where
  "js s = map of_char s"

definition dot :: "16 word" where
  "dot = 0x2E"

text \<open>
  \<open>String.prototype.trim\<close> removes WhiteSpace and LineTerminator code units from both
  ends: TAB, LF, VT, FF, CR, SP, NBSP, U+1680, U+2000..U+200A, U+2028, U+2029, U+202F,
  U+205F, U+3000 and U+FEFF.
\<close>

definition isWhiteSpace :: "16 word \<Rightarrow> bool" where
  "isWhiteSpace c \<longleftrightarrow>
     (0x09 \<le> c \<and> c \<le> 0x0D) \<or> c = 0x20 \<or> c = 0xA0 \<or> c = 0x1680 \<or>
     (0x2000 \<le> c \<and> c \<le> 0x200A) \<or> c = 0x2028 \<or> c = 0x2029 \<or> c = 0x202F \<or>
     c = 0x205F \<or> c = 0x3000 \<or> c = 0xFEFF"

definition trim_str :: "jsstring \<Rightarrow> jsstring" where
  "trim_str s = rev (dropWhile isWhiteSpace (rev (dropWhile isWhiteSpace s)))"

text \<open>\<open>s.split(sep)\<close> for a one-unit separator: never the empty array, \<open>''.split('.')\<close> is \<open>['']\<close>.\<close>

fun split_str :: "16 word \<Rightarrow> jsstring \<Rightarrow> jsstring list" where
  "split_str sep [] = [[]]"
| "split_str sep (c # cs) =
     (if c = sep then [] # split_str sep cs
      else (case split_str sep cs of [] \<Rightarrow> [[c]] | p # ps \<Rightarrow> (c # p) # ps))"

text \<open>\<open>parts.join(sep)\<close>.\<close>

fun join_str :: "16 word \<Rightarrow> jsstring list \<Rightarrow> jsstring" where
  "join_str sep [] = []"
| "join_str sep [p] = p"
| "join_str sep (p # q # ps) = p @ sep # join_str sep (q # ps)"

text \<open>\<open>parts.pop()\<close> returns the last element, \<open>undefined\<close> (here \<open>None\<close>) on an empty array;
  the array that is left is \<open>butlast parts\<close>.\<close>

definition pop :: "'a list \<Rightarrow> 'a option" where
  "pop parts = (case parts of [] \<Rightarrow> None | _ \<Rightarrow> Some (last parts))"

section \<open>File-name sanitization (\<open>X2TConverter.sanitizeFileName\<close>)\<close>

text \<open>\<open>illegalChars = /[/?<>\\:*|"]/g\<close>\<close>

definition isIllegalChar :: "16 word \<Rightarrow> bool" where
  "isIllegalChar c \<longleftrightarrow>
     c = 0x2F \<or> c = 0x3F \<or> c = 0x3C \<or> c = 0x3E \<or> c = 0x5C \<or> c = 0x3A \<or>
     c = 0x2A \<or> c = 0x7C \<or> c = 0x22"

text \<open>\<open>controlChars = /[\x00-\x1f\x80-\x9f]/g\<close>\<close>

definition isControlChar :: "16 word \<Rightarrow> bool" where
  "isControlChar c \<longleftrightarrow> c \<le> 0x1F \<or> (0x80 \<le> c \<and> c \<le> 0x9F)"

text \<open>\<open>unsafeChars = /[&'%!"{}[\]]/g\<close>\<close>

definition isUnsafeChar :: "16 word \<Rightarrow> bool" where
  "isUnsafeChar c \<longleftrightarrow>
     c = 0x26 \<or> c = 0x27 \<or> c = 0x25 \<or> c = 0x21 \<or> c = 0x22 \<or> c = 0x7B \<or>
     c = 0x7D \<or> c = 0x5B \<or> c = 0x5D"

text \<open>\<open>reservedPattern = /^\.+$/\<close>: a non-empty string made of dots only.\<close>

definition isReserved :: "jsstring \<Rightarrow> bool" where
  "isReserved s \<longleftrightarrow> s \<noteq> [] \<and> list_all (\<lambda>c. c = dot) s"

definition replaceReserved :: "jsstring \<Rightarrow> jsstring" where
  "replaceReserved s = (if isReserved s then [] else s)"

text \<open>The four chained \<open>replace\<close> calls, in the order of the source.\<close>

definition stripName :: "jsstring \<Rightarrow> jsstring" where
  "stripName name =
     filter (\<lambda>c. \<not> isUnsafeChar c)
       (replaceReserved
         (filter (\<lambda>c. \<not> isControlChar c)
           (filter (\<lambda>c. \<not> isIllegalChar c) name)))"

text \<open>\<open>const name = parts.join('.')\<close> after the \<open>pop\<close>.\<close>

definition baseName :: "jsstring \<Rightarrow> jsstring" where
  "baseName input = join_str dot (butlast (split_str dot input))"

text \<open>\<open>const ext = parts.pop() || 'bin'\<close>: \<open>undefined\<close> and the empty string are falsy.\<close>

definition extension :: "jsstring \<Rightarrow> jsstring" where
  "extension input =
     (case pop (split_str dot input) of
        None \<Rightarrow> js ''bin''
      | Some e \<Rightarrow> if e = [] then js ''bin'' else e)"

text \<open>\<open>sanitized = sanitized.trim() || 'file'\<close>, applied to the stripped name.\<close>

definition sanitized :: "jsstring \<Rightarrow> jsstring" where
  "sanitized name =
     (if trim_str (stripName name) = [] then js ''file'' else trim_str (stripName name))"

text \<open>
  The parameter is typed \<open>string\<close>, so the \<open>typeof input !== 'string'\<close> test is always false
  and only the blank test of the guard is left. \<open>slice(0, 200)\<close> keeps at most 200 code units.
\<close>

definition sanitizeFileName :: "jsstring \<Rightarrow> jsstring" where
  "sanitizeFileName input =
     (if trim_str input = [] then js ''file.bin''
      else
        let ext = extension input;
            name = baseName input
        in take 200 (sanitized name) @ dot # ext)"

text \<open>A code unit that none of the three character classes removes.\<close>

definition clean :: "16 word \<Rightarrow> bool" where
  "clean c \<longleftrightarrow> \<not> isIllegalChar c \<and> \<not> isControlChar c \<and> \<not> isUnsafeChar c"

section \<open>Engine initialization (\<open>X2TConverter.initialize\<close>, \<open>doInitialize\<close>, \<open>loadScript\<close>)\<close>

text \<open>
  The converter runs on a single-threaded event loop. Its state is the four private fields
  of the class together with the part of the surroundings the methods read and write:
  \<open>window.Module\<close>, the promises created by \<open>doInitialize\<close>, the callbacks that are
  installed (script load, \<open>onRuntimeInitialized\<close>, the timeout timer), the engine's
  virtual filesystem and a log of every interaction with the outside. A promise is
  identified by its index in \<open>promises\<close>; it settles at most once.
\<close>

type_synonym pid = nat
type_synonym handle = nat
type_synonym byte = "8 word"

datatype error =
    ScriptLoadError
  | ModuleNotFound
  | InitTimeout
  | UnsupportedFormat jsstring
  | NotInitialized
  | NullModule
  | CsvEmpty
  | XlsxLoadFailed
  | XlsxError
  | FsError jsstring
  | ConversionCode int
  | CsvToXlsxFailed error
  | CsvConversionFailed error
  | DocumentConversionFailed error

datatype 'a settlement = Pending | Fulfilled 'a | Rejected error

text \<open>What \<open>initialize()\<close> returns from its \<open>async\<close> body: the module itself, or a promise
  whose outcome the caller's promise adopts.\<close>

datatype initResult = Immediate handle | Awaits pid

text \<open>The callbacks of the bootstrap that are still installed: none, the script load awaited by
  \<open>doInitialize\<close>, or \<open>onRuntimeInitialized\<close> on the module with the timer armed or not.\<close>

datatype attempt = NoAttempt | LoadingScript pid | AwaitingRuntime pid handle bool

record descriptor =
  m_sFileFrom :: jsstring
  m_sThemeDir :: jsstring
  m_sFileTo :: jsstring
  m_bIsNoBase64 :: bool
  additionalParams :: jsstring

datatype content = Bytes "byte list" | Params descriptor

datatype effect =
    DoInitialize
  | ScriptOnLoad
  | RuntimeWait
  | Mkdir jsstring
  | WriteFile jsstring
  | ReadFile jsstring
  | Readdir jsstring
  | CcallMain1 jsstring
  | LoadXlsxLibrary
  | XlsxRead
  | XlsxWrite

record world =
  x2tModule :: "handle option"
  isReady :: bool
  initPromise :: "pid option"
  hasScriptLoaded :: bool
  windowModule :: "handle option"
  windowXLSX :: bool
  promises :: "handle settlement list"
  attempt :: attempt
  returned :: "initResult list"
  dirs :: "jsstring list"
  files :: "(jsstring \<times> content) list"
  effects :: "effect list"

definition fresh :: world where
  "fresh = \<lparr> x2tModule = None, isReady = False, initPromise = None, hasScriptLoaded = False,
     windowModule = None, windowXLSX = False, promises = [], attempt = NoAttempt,
     returned = [], dirs = [], files = [], effects = [] \<rparr>"

text \<open>\<open>resolve\<close>/\<open>reject\<close> of promise \<open>p\<close>: without effect once the promise is settled.\<close>

definition settle :: "pid \<Rightarrow> handle settlement \<Rightarrow> world \<Rightarrow> world" where
  "settle p v w =
     (if p < length (promises w) \<and> promises w ! p = Pending
      then w\<lparr>promises := (promises w)[p := v]\<rparr> else w)"

definition WORKING_DIRS :: "jsstring list" where
  "WORKING_DIRS = [js ''/working'', js ''/working/media'', js ''/working/fonts'',
     js ''/working/themes'']"

text \<open>\<open>FS.mkdir\<close> throws on a directory that exists; \<open>createWorkingDirectories\<close> catches it.\<close>

definition mkdir :: "jsstring \<Rightarrow> world \<Rightarrow> world" where
  "mkdir dir w =
     (let w' = w\<lparr>effects := effects w @ [Mkdir dir]\<rparr>
      in if dir \<in> set (dirs w') then w' else w'\<lparr>dirs := dirs w' @ [dir]\<rparr>)"

definition createWorkingDirectories :: "world \<Rightarrow> world" where
  "createWorkingDirectories w = fold mkdir WORKING_DIRS w"

text \<open>
  The executor of the promise built by \<open>doInitialize\<close> after the script has loaded. Its
  \<open>reject\<close> is outside the reach of the \<open>catch\<close> block of \<open>doInitialize\<close>: the promise is
  returned, not awaited, so \<open>initPromise\<close> is left as it is.
\<close>

definition promiseExecutor :: "pid \<Rightarrow> world \<Rightarrow> world" where
  "promiseExecutor p w =
     (case windowModule w of
        None \<Rightarrow> settle p (Rejected ModuleNotFound) (w\<lparr>attempt := NoAttempt\<rparr>)
      | Some x2t \<Rightarrow>
          w\<lparr>attempt := AwaitingRuntime p x2t True, effects := effects w @ [RuntimeWait]\<rparr>)"

text \<open>\<open>doInitialize\<close> up to its first suspension: \<open>loadScript\<close> returns at once when the script
  has been loaded, otherwise it calls \<open>scriptOnLoad\<close> and waits.\<close>

definition doInitialize :: "world \<Rightarrow> pid \<times> world" where
  "doInitialize w =
     (let p = length (promises w);
          w1 = w\<lparr>promises := promises w @ [Pending], effects := effects w @ [DoInitialize]\<rparr>
      in if hasScriptLoaded w1 then (p, promiseExecutor p w1)
         else (p, w1\<lparr>attempt := LoadingScript p, effects := effects w1 @ [ScriptOnLoad]\<rparr>))"

definition initialize :: "world \<Rightarrow> initResult \<times> world" where
  "initialize w =
     (case (if isReady w then x2tModule w else None) of
        Some m \<Rightarrow> (Immediate m, w)
      | None \<Rightarrow>
          (case initPromise w of
             Some p \<Rightarrow> (Awaits p, w)
           | None \<Rightarrow>
               (let (p, w') = doInitialize w
                in (Awaits p, w'\<lparr>initPromise := Some p\<rparr>))))"

text \<open>
  The events of the loop: a call of \<open>initialize()\<close>; the script load succeeding (leaving
  \<open>window.Module\<close> as given) or failing; the engine calling \<open>onRuntimeInitialized\<close>; the
  \<open>INIT_TIMEOUT\<close> timer firing. An event whose callback is not installed changes nothing.
  \<open>destroy()\<close> is not part of this model.
\<close>

datatype event =
    CallInitialize
  | ScriptLoaded "handle option"
  | ScriptFailed
  | RuntimeInitialized
  | TimeoutFired

fun step :: "event \<Rightarrow> world \<Rightarrow> world" where
  "step CallInitialize w =
     (let (r, w') = initialize w in w'\<lparr>returned := returned w' @ [r]\<rparr>)"
| "step (ScriptLoaded m) w =
     (case attempt w of
        LoadingScript p \<Rightarrow> promiseExecutor p (w\<lparr>hasScriptLoaded := True, windowModule := m\<rparr>)
      | _ \<Rightarrow> w)"
| "step ScriptFailed w =
     (case attempt w of
        LoadingScript p \<Rightarrow>
          settle p (Rejected ScriptLoadError) (w\<lparr>initPromise := None, attempt := NoAttempt\<rparr>)
      | _ \<Rightarrow> w)"
| "step RuntimeInitialized w =
     (case attempt w of
        AwaitingRuntime p x2t armed \<Rightarrow>
          settle p (Fulfilled x2t)
            ((createWorkingDirectories (w\<lparr>attempt := NoAttempt\<rparr>))
               \<lparr>x2tModule := Some x2t, isReady := True\<rparr>)
      | _ \<Rightarrow> w)"
| "step TimeoutFired w =
     (case attempt w of
        AwaitingRuntime p x2t armed \<Rightarrow>
          (if armed then
             (let w' = w\<lparr>attempt := AwaitingRuntime p x2t False\<rparr>
              in if \<not> isReady w' then settle p (Rejected InitTimeout) w' else w')
           else w)
      | _ \<Rightarrow> w)"

fun run :: "event list \<Rightarrow> world \<Rightarrow> world" where
  "run [] w = w"
| "run (e # es) w = run es (step e w)"

text \<open>The outcome a caller of \<open>initialize()\<close> observes in world \<open>w\<close>.\<close>

definition callerOutcome :: "world \<Rightarrow> initResult \<Rightarrow> handle settlement" where
  "callerOutcome w r =
     (case r of
        Immediate m \<Rightarrow> Fulfilled m
      | Awaits p \<Rightarrow> if p < length (promises w) then promises w ! p else Pending)"

section \<open>Document conversion (\<open>X2TConverter.convertDocument\<close>)\<close>

datatype DocumentType = Word | Cell | Slide

record jsfile =
  file_name :: jsstring
  file_type :: jsstring
  file_bytes :: "byte list"

record ConversionResult =
  fileName :: jsstring
  rtype :: DocumentType
  bin :: content
  media :: "(jsstring \<times> jsstring) list"

type_synonym workbook = "jsstring list list"

text \<open>
  What the converter takes from its surroundings, as parameters: \<open>getExtensions\<close> of
  \<open>ranuts/utils\<close>, the table \<open>DOCUMENT_TYPE_MAP\<close> of \<open>document-utils\<close>, the case mapping
  \<open>toLowerCase\<close> of the runtime, the events that
  reach the loop while \<open>initialize()\<close> is awaited, the SheetJS library (its script load,
  \<open>XLSX.read\<close>, \<open>XLSX.write\<close>; \<open>None\<close> is a throw), \<open>TextDecoder\<close>, the engine's entry point
  \<open>main1\<close> (status code and the filesystem it leaves) and \<open>createObjectURL\<close>.
\<close>

record env =
  getExtensions :: "jsstring \<Rightarrow> jsstring list"
  DOCUMENT_TYPE_MAP :: "jsstring \<Rightarrow> DocumentType option"
  toLowerCase :: "jsstring \<Rightarrow> jsstring"
  initEvents :: "event list"
  xlsxScriptLoads :: bool
  utf8Decode :: "byte list \<Rightarrow> jsstring"
  XLSX_read :: "jsstring \<Rightarrow> workbook option"
  XLSX_write :: "workbook \<Rightarrow> byte list option"
  main1 :: "(jsstring \<times> content) list \<Rightarrow> int \<times> (jsstring \<times> content) list"
  createObjectURL :: "content \<Rightarrow> jsstring option"

text \<open>The letters A to Z in lower case, other code units as they are: how the \<open>i\<close> flag of
  \<open>/\.csv$/i\<close> folds the letters of \<open>csv\<close>.\<close>

definition asciiLower :: "jsstring \<Rightarrow> jsstring" where
  "asciiLower s = map (\<lambda>c. if 0x41 \<le> c \<and> c \<le> 0x5A then c + 0x20 else c) s"

text \<open>\<open>getExtensions(file?.type)[0] || fileName.split('.').pop() || ''\<close>\<close>

definition detectExtension :: "env \<Rightarrow> jsfile \<Rightarrow> jsstring" where
  "detectExtension en file =
     (let fromName = (case pop (split_str dot (file_name file)) of None \<Rightarrow> [] | Some e \<Rightarrow> e)
      in case getExtensions en (file_type file) of
           [] \<Rightarrow> fromName
         | e # _ \<Rightarrow> if e = [] then fromName else e)"

definition getDocumentType :: "env \<Rightarrow> jsstring \<Rightarrow> error + DocumentType" where
  "getDocumentType en ext =
     (case DOCUMENT_TYPE_MAP en (toLowerCase en ext) of
        None \<Rightarrow> Inl (UnsupportedFormat ext)
      | Some docType \<Rightarrow> Inr docType)"

text \<open>\<open>FS.writeFile\<close> creates or overwrites the file.\<close>

definition writeFile :: "jsstring \<Rightarrow> content \<Rightarrow> world \<Rightarrow> world" where
  "writeFile path c w =
     w\<lparr>files := (path, c) # filter (\<lambda>e. fst e \<noteq> path) (files w),
       effects := effects w @ [WriteFile path]\<rparr>"

text \<open>\<open>FS.readFile\<close> throws on a path that does not exist.\<close>

definition readFile :: "jsstring \<Rightarrow> world \<Rightarrow> (error + content) \<times> world" where
  "readFile path w =
     ((case map_of (files w) path of None \<Rightarrow> Inl (FsError path) | Some c \<Rightarrow> Inr c),
      w\<lparr>effects := effects w @ [ReadFile path]\<rparr>)"

definition createConversionParams :: "jsstring \<Rightarrow> jsstring \<Rightarrow> jsstring \<Rightarrow> descriptor" where
  "createConversionParams fromPath toPath additional =
     \<lparr> m_sFileFrom = fromPath, m_sThemeDir = js ''/working/themes'', m_sFileTo = toPath,
       m_bIsNoBase64 = False, additionalParams = additional \<rparr>"

text \<open>\<open>executeConversion\<close>: on a non-zero status the descriptor is read back for the log
  (a failure of that read is caught) and the conversion error is thrown.\<close>

definition executeConversion :: "env \<Rightarrow> jsstring \<Rightarrow> world \<Rightarrow> error option \<times> world" where
  "executeConversion en paramsPath w =
     (case x2tModule w of
        None \<Rightarrow> (Some NotInitialized, w)
      | Some x2t \<Rightarrow>
          (let (result, fs) = main1 en (files w);
               w1 = w\<lparr>files := fs, effects := effects w @ [CcallMain1 paramsPath]\<rparr>
           in if result \<noteq> 0 then (Some (ConversionCode result), snd (readFile paramsPath w1))
              else (None, w1)))"

definition mediaDir :: jsstring where
  "mediaDir = js ''/working/media/''"

text \<open>The entries \<open>FS.readdir\<close> lists besides \<open>.\<close> and \<open>..\<close>: the files directly under the directory.\<close>

definition mediaNames :: "(jsstring \<times> content) list \<Rightarrow> jsstring list" where
  "mediaNames fs =
     filter (\<lambda>n. n \<noteq> [] \<and> 0x2F \<notin> set n)
       (map (\<lambda>e. drop (length mediaDir) (fst e))
         (filter (\<lambda>e. take (length mediaDir) (fst e) = mediaDir) fs))"

text \<open>\<open>readMediaFiles\<close>: a failing \<open>readdir\<close> and a failing file are caught and logged.\<close>

definition readMediaFiles :: "env \<Rightarrow> world \<Rightarrow> (jsstring \<times> jsstring) list \<times> world" where
  "readMediaFiles en w =
     (case x2tModule w of
        None \<Rightarrow> ([], w)
      | Some x2t \<Rightarrow>
          (let w1 = w\<lparr>effects := effects w @ [Readdir mediaDir]\<rparr>
           in if js ''/working/media'' \<notin> set (dirs w1) then ([], w1)
              else
                (let listed = js ''.'' # js ''..'' # mediaNames (files w1);
                     names = filter (\<lambda>f. f \<noteq> js ''.'' \<and> f \<noteq> js ''..'') listed;
                     results = map (\<lambda>f.
                        case map_of (files w1) (mediaDir @ f) of
                          None \<Rightarrow> None
                        | Some fileData \<Rightarrow>
                            (case createObjectURL en fileData of
                               None \<Rightarrow> None
                             | Some url \<Rightarrow> Some (js ''media/'' @ f, url))) names
                 in (map the (filter (\<lambda>r. r \<noteq> None) results),
                     w1\<lparr>effects := effects w1 @ map (\<lambda>f. ReadFile (mediaDir @ f)) names\<rparr>))))"

text \<open>
  The statements both branches of \<open>convertDocument\<close> run on their input: write it under
  \<open>/working\<close>, write the descriptor, call the engine, read the output and the media.
  \<open>this.x2tModule!.FS\<close> on a module that is \<open>null\<close> throws a \<open>TypeError\<close>.
\<close>

definition x2tConvert ::
  "env \<Rightarrow> jsstring \<Rightarrow> byte list \<Rightarrow> world \<Rightarrow>
     (error + content \<times> (jsstring \<times> jsstring) list) \<times> world" where
  "x2tConvert en sanitizedName data w =
     (case x2tModule w of
        None \<Rightarrow> (Inl NullModule, w)
      | Some x2t \<Rightarrow>
          (let inputPath = js ''/working/'' @ sanitizedName;
               outputPath = inputPath @ js ''.bin'';
               w1 = writeFile inputPath (Bytes data) w;
               params = createConversionParams inputPath outputPath [];
               w2 = writeFile (js ''/working/params.xml'') (Params params) w1
           in case executeConversion en (js ''/working/params.xml'') w2 of
                (Some e, w3) \<Rightarrow> (Inl e, w3)
              | (None, w3) \<Rightarrow>
                  (case readFile outputPath w3 of
                     (Inl e, w4) \<Rightarrow> (Inl e, w4)
                   | (Inr result, w4) \<Rightarrow>
                       (let (mediaUrls, w5) = readMediaFiles en w4
                        in (Inr (result, mediaUrls), w5)))))"

definition loadXlsxLibrary :: "env \<Rightarrow> world \<Rightarrow> bool \<times> world" where
  "loadXlsxLibrary en w =
     (if windowXLSX w then (True, w)
      else
        (let w1 = w\<lparr>effects := effects w @ [LoadXlsxLibrary]\<rparr>
         in if xlsxScriptLoads en then (True, w1\<lparr>windowXLSX := True\<rparr>) else (False, w1)))"

text \<open>\<open>fileName.replace(/\.csv$/i, '.xlsx')\<close>\<close>

definition replaceCsvExt :: "jsstring \<Rightarrow> jsstring" where
  "replaceCsvExt n =
     (if 4 \<le> length n \<and> asciiLower (drop (length n - 4) n) = js ''.csv''
      then take (length n - 4) n @ js ''.xlsx'' else n)"

text \<open>
  \<open>convertCsvToXlsx\<close>. A \<open>TextDecoder\<close> built without \<open>fatal\<close> never throws, so the
  \<open>latin1\<close> fallback is never taken. Every failure is rethrown wrapped.
\<close>

definition convertCsvToXlsx ::
  "env \<Rightarrow> byte list \<Rightarrow> jsstring \<Rightarrow> world \<Rightarrow> (error + jsstring \<times> byte list) \<times> world" where
  "convertCsvToXlsx en csvData name w =
     (case loadXlsxLibrary en w of
        (False, w1) \<Rightarrow> (Inl (CsvToXlsxFailed XlsxLoadFailed), w1)
      | (True, w1) \<Rightarrow>
          (let csvText =
                 (if 3 \<le> length csvData \<and> csvData ! 0 = 0xEF \<and> csvData ! 1 = 0xBB \<and>
                     csvData ! 2 = 0xBF
                  then utf8Decode en (drop 3 csvData) else utf8Decode en csvData);
               w2 = w1\<lparr>effects := effects w1 @ [XlsxRead]\<rparr>
           in case XLSX_read en csvText of
                None \<Rightarrow> (Inl (CsvToXlsxFailed XlsxError), w2)
              | Some wb \<Rightarrow>
                  (let w3 = w2\<lparr>effects := effects w2 @ [XlsxWrite]\<rparr>
                   in case XLSX_write en wb of
                        None \<Rightarrow> (Inl (CsvToXlsxFailed XlsxError), w3)
                      | Some xlsxBuffer \<Rightarrow> (Inr (replaceCsvExt name, xlsxBuffer), w3))))"

text \<open>The inner \<open>try\<close> of the CSV branch.\<close>

definition convertCsv ::
  "env \<Rightarrow> jsfile \<Rightarrow> DocumentType \<Rightarrow> world \<Rightarrow> (error + ConversionResult) \<times> world" where
  "convertCsv en file documentType w =
     (case convertCsvToXlsx en (file_bytes file) (file_name file) w of
        (Inl e, w1) \<Rightarrow> (Inl e, w1)
      | (Inr (xlsxName, xlsxData), w1) \<Rightarrow>
          (case x2tConvert en (sanitizeFileName xlsxName) xlsxData w1 of
             (Inl e, w2) \<Rightarrow> (Inl e, w2)
           | (Inr (result, mediaUrls), w2) \<Rightarrow>
               (Inr \<lparr> fileName = sanitizeFileName (file_name file), rtype = documentType,
                      bin = result, media = mediaUrls \<rparr>, w2)))"

text \<open>The outer \<open>try\<close> of \<open>convertDocument\<close>.\<close>

definition convertBody ::
  "env \<Rightarrow> jsfile \<Rightarrow> jsstring \<Rightarrow> DocumentType \<Rightarrow> world \<Rightarrow>
     (error + ConversionResult) \<times> world" where
  "convertBody en file fileExt documentType w =
     (if toLowerCase en fileExt = js ''csv'' then
        (if file_bytes file = [] then (Inl CsvEmpty, w)
         else
           (case convertCsv en file documentType w of
              (Inl e, w1) \<Rightarrow> (Inl (CsvConversionFailed e), w1)
            | (Inr res, w1) \<Rightarrow> (Inr res, w1)))
      else
        (let sanitizedName = sanitizeFileName (file_name file)
         in case x2tConvert en sanitizedName (file_bytes file) w of
              (Inl e, w1) \<Rightarrow> (Inl e, w1)
            | (Inr (result, mediaUrls), w1) \<Rightarrow>
                (Inr \<lparr> fileName = sanitizedName, rtype = documentType, bin = result,
                       media = mediaUrls \<rparr>, w1)))"

text \<open>\<open>await this.initialize()\<close>: the call, then the events of the environment; the caller
  goes on with the outcome of what the call returned.\<close>

definition awaitInitialize :: "env \<Rightarrow> world \<Rightarrow> handle settlement \<times> world" where
  "awaitInitialize en w =
     (let (r, w0) = initialize w;
          w1 = run (initEvents en) w0
      in (callerOutcome w1 r, w1))"

text \<open>\<open>convertDocument\<close>: \<open>None\<close> when the awaited initialization never settles, else the
  rejection or the result.\<close>

definition convertDocument ::
  "env \<Rightarrow> jsfile \<Rightarrow> world \<Rightarrow> (error + ConversionResult) option \<times> world" where
  "convertDocument en file w =
     (case awaitInitialize en w of
        (Pending, w1) \<Rightarrow> (None, w1)
      | (Rejected e, w1) \<Rightarrow> (Some (Inl e), w1)
      | (Fulfilled x2t, w1) \<Rightarrow>
          (let fileExt = detectExtension en file
           in case getDocumentType en fileExt of
                Inl e \<Rightarrow> (Some (Inl e), w1)
              | Inr documentType \<Rightarrow>
                  (case convertBody en file fileExt documentType w1 of
                     (Inl e, w2) \<Rightarrow> (Some (Inl (DocumentConversionFailed e)), w2)
                   | (Inr res, w2) \<Rightarrow> (Some (Inr res), w2))))"

text \<open>The interactions of one request with the filesystem, the fallback library and the
  engine's entry point, as opposed to those of the bootstrap.\<close>

fun requestEffect :: "effect \<Rightarrow> bool" where
  "requestEffect (WriteFile p) = True"
| "requestEffect (ReadFile p) = True"
| "requestEffect (Readdir p) = True"
| "requestEffect (CcallMain1 p) = True"
| "requestEffect LoadXlsxLibrary = True"
| "requestEffect XlsxRead = True"
| "requestEffect XlsxWrite = True"
| "requestEffect e = False"

section \<open>Editor sessions (\<open>createEditorInstance\<close>)\<close>

text \<open>
  \<open>window.editor\<close> holds the live session, if any. The code keeps nothing about a session
  but the object itself; the model attaches to it the file type it was constructed with,
  and whether its \<open>destroyEditor\<close> throws, so that properties can speak about them.
\<close>

record session =
  sessionFileType :: jsstring
  destroyThrows :: bool

record editorConfig =
  cfgFileName :: jsstring
  cfgFileType :: jsstring
  cfgBinData :: content
  cfgMedia :: "(jsstring \<times> jsstring) list option"

record window =
  editor :: "session option"
  iframeChildren :: nat

datatype action =
    DestroyEditor
  | Delay nat
  | ClearContainer
  | NewDocEditor jsstring

text \<open>\<open>const isPresentation = fileType === 'pptx' || fileType === 'ppt'\<close>, on the file type of
  the configuration passed in.\<close>

definition isPresentation :: "jsstring \<Rightarrow> bool" where
  "isPresentation fileType \<longleftrightarrow> fileType = js ''pptx'' \<or> fileType = js ''ppt''"

text \<open>\<open>hasExistingEditor && isPresentation ? 400 : hasExistingEditor ? 250 : 150\<close>\<close>

definition settlingDelay :: "bool \<Rightarrow> bool \<Rightarrow> nat" where
  "settlingDelay hasExistingEditor presentation =
     (if hasExistingEditor \<and> presentation then 400 else if hasExistingEditor then 250 else 150)"

text \<open>
  The operation \<open>createEditorInstance\<close> hands to the queue, with the actions it performs in
  order. \<open>constructorThrows\<close> says whether \<open>new DocsAPI.DocEditor\<close> throws; a session that is
  constructed behaves as \<open>newSession\<close> says when it is destroyed later.
\<close>

definition createEditorOperation ::
  "editorConfig \<Rightarrow> bool \<Rightarrow> bool \<Rightarrow> window \<Rightarrow> bool \<times> action list \<times> window" where
  "createEditorOperation config constructorThrows newDestroyThrows win =
     (let fileType = cfgFileType config;
          hasExistingEditor = (editor win \<noteq> None);
          (acts1, win1) =
            (case editor win of
               None \<Rightarrow> ([], win)
             | Some old \<Rightarrow>
                 (if destroyThrows old then [DestroyEditor]
                  else [DestroyEditor,
                        Delay (settlingDelay hasExistingEditor (isPresentation fileType))],
                  win\<lparr>editor := None\<rparr>));
          win2 = win1\<lparr>iframeChildren := 0\<rparr>;
          cleanupDelay = settlingDelay hasExistingEditor (isPresentation fileType);
          acts2 = acts1 @ [ClearContainer, Delay cleanupDelay, NewDocEditor fileType]
      in if constructorThrows then (False, acts2, win2)
         else (True, acts2,
               win2\<lparr>editor := Some \<lparr> sessionFileType = fileType,
                                        destroyThrows = newDestroyThrows \<rparr>,
                     iframeChildren := 1\<rparr>))"

text \<open>The settling delays among the actions.\<close>

fun delays :: "action list \<Rightarrow> nat list" where
  "delays [] = []"
| "delays (Delay d # as) = d # delays as"
| "delays (a # as) = delays as"

section \<open>Editor operation queue (\<open>queueEditorOperation\<close>)\<close>

text \<open>
  The module variable \<open>editorOperationQueue\<close> holds a promise, here its index in
  \<open>qpromises\<close>; index 0 is the initial \<open>Promise.resolve()\<close>. A call of
  \<open>queueEditorOperation\<close> reads the variable, builds the race with the 30 s timer and
  suspends; when the race settles it goes on: it creates \<open>operationPromise\<close>, stores it in
  the variable and starts the operation; when the operation's promise settles it settles
  \<open>operationPromise\<close> the same way and returns or rethrows. A thrown value is an \<open>Error\<close>
  with its message.
\<close>

datatype thrown = Thrown jsstring

datatype qsettlement = QPending | QResolved | QRejected thrown

datatype qevent =
    Enqueue nat
  | RaceSettled nat
  | RaceTimeout nat
  | OperationDone nat "thrown option"

datatype qlog =
    Started nat
  | Completed nat
  | Failed nat thrown
  | RejectedUnstarted nat thrown
  | TimeoutWarning nat

record queue =
  editorOperationQueue :: nat
  qpromises :: "qsettlement list"
  waiting :: "(nat \<times> nat) list"
  running :: "(nat \<times> nat) list"
  qlog :: "qlog list"

definition queue0 :: queue where
  "queue0 = \<lparr> editorOperationQueue = 0, qpromises = [QResolved], waiting = [], running = [],
     qlog = [] \<rparr>"

definition timeoutMessage :: jsstring where
  "timeoutMessage = js ''Editor operation queue timeout''"

text \<open>The part of \<open>queueEditorOperation\<close> after the first \<open>try\<close>: install the new promise, start
  the operation.\<close>

definition startOperation :: "nat \<Rightarrow> queue \<Rightarrow> queue" where
  "startOperation op q =
     (let p = length (qpromises q)
      in q\<lparr>qpromises := qpromises q @ [QPending], editorOperationQueue := p,
           running := running q @ [(op, p)], qlog := qlog q @ [Started op]\<rparr>)"

definition unwait :: "nat \<Rightarrow> queue \<Rightarrow> queue" where
  "unwait op q = q\<lparr>waiting := filter (\<lambda>e. fst e \<noteq> op) (waiting q)\<rparr>"

fun qstep :: "qevent \<Rightarrow> queue \<Rightarrow> queue" where
  "qstep (Enqueue op) q = q\<lparr>waiting := waiting q @ [(op, editorOperationQueue q)]\<rparr>"
| "qstep (RaceSettled op) q =
     (case map_of (waiting q) op of
        None \<Rightarrow> q
      | Some t \<Rightarrow>
          (case qpromises q ! t of
             QPending \<Rightarrow> q
           | QResolved \<Rightarrow> startOperation op (unwait op q)
           | QRejected (Thrown msg) \<Rightarrow>
               (if msg = timeoutMessage
                then startOperation op ((unwait op q)\<lparr>qlog := qlog q @ [TimeoutWarning op]\<rparr>)
                else (unwait op q)\<lparr>qlog := qlog q @ [RejectedUnstarted op (Thrown msg)]\<rparr>)))"
| "qstep (RaceTimeout op) q =
     (case map_of (waiting q) op of
        None \<Rightarrow> q
      | Some t \<Rightarrow>
          (case qpromises q ! t of
             QPending \<Rightarrow>
               startOperation op ((unwait op q)\<lparr>qlog := qlog q @ [TimeoutWarning op]\<rparr>)
           | _ \<Rightarrow> q))"
| "qstep (OperationDone op r) q =
     (case map_of (running q) op of
        None \<Rightarrow> q
      | Some p \<Rightarrow>
          (case r of
             None \<Rightarrow>
               q\<lparr>running := filter (\<lambda>e. fst e \<noteq> op) (running q),
                 qpromises := (qpromises q)[p := QResolved], qlog := qlog q @ [Completed op]\<rparr>
           | Some e \<Rightarrow>
               q\<lparr>running := filter (\<lambda>e. fst e \<noteq> op) (running q),
                 qpromises := (qpromises q)[p := QRejected e], qlog := qlog q @ [Failed op e]\<rparr>))"

fun qrun :: "qevent list \<Rightarrow> queue \<Rightarrow> queue" where
  "qrun [] q = q"
| "qrun (e # es) q = qrun es (qstep e q)"

section \<open>Invariants and sample data\<close>

text \<open>
  The first bootstrap is in flight: its promise, number 0, is pending, stored in
  \<open>initPromise\<close>, and exactly one \<open>doInitialize\<close> and one script load have been started,
  with at most one wait for the runtime.
\<close>

definition inflight :: "world \<Rightarrow> bool" where
  "inflight w \<longleftrightarrow>
     initPromise w = Some 0 \<and> \<not> isReady w \<and> promises w = [Pending] \<and>
     count_list (effects w) DoInitialize = 1 \<and> count_list (effects w) ScriptOnLoad = 1 \<and>
     (case attempt w of
        NoAttempt \<Rightarrow> False
      | LoadingScript p \<Rightarrow> p = 0 \<and> count_list (effects w) RuntimeWait = 0
      | AwaitingRuntime p x2t armed \<Rightarrow> p = 0 \<and> armed \<and> count_list (effects w) RuntimeWait = 1)"

text \<open>Promise 0 has settled.\<close>

definition settled0 :: "world \<Rightarrow> bool" where
  "settled0 w \<longleftrightarrow> promises w \<noteq> [] \<and> promises w ! 0 \<noteq> Pending"

text \<open>A fulfilled promise carries the cached module of a ready converter, and a ready
  converter has no bootstrap callback installed.\<close>

definition coherent :: "world \<Rightarrow> bool" where
  "coherent w \<longleftrightarrow>
     list_all (\<lambda>s. case s of Fulfilled h \<Rightarrow> isReady w \<and> x2tModule w = Some h | _ \<Rightarrow> True)
       (promises w) \<and>
     (isReady w \<longrightarrow> x2tModule w \<noteq> None \<and> attempt w = NoAttempt)"

text \<open>
  An environment for the examples: no extension is derived from the media type, a small
  extension table in the place of the one of \<open>document-utils\<close>, a bootstrap that
  succeeds, a fallback library that loads and answers, and an engine that writes three
  bytes to the destination named by the descriptor.
\<close>

definition sampleEnv :: env where
  "sampleEnv = \<lparr>
     getExtensions = (\<lambda>t. []),
     DOCUMENT_TYPE_MAP = (\<lambda>e. if e = js ''docx'' then Some Word
        else if e = js ''xlsx'' \<or> e = js ''csv'' then Some Cell
        else if e = js ''pptx'' then Some Slide else None),
     toLowerCase = asciiLower,
     initEvents = [ScriptLoaded (Some 1), RuntimeInitialized],
     xlsxScriptLoads = True,
     utf8Decode = map ucast,
     XLSX_read = (\<lambda>t. Some [[t]]),
     XLSX_write = (\<lambda>wb. Some [0x50, 0x4B]),
     main1 = (\<lambda>fs. case map_of fs (js ''/working/params.xml'') of
        Some (Params d) \<Rightarrow> (0, (m_sFileTo d, Bytes [1, 2, 3]) # fs)
      | _ \<Rightarrow> (1, fs)),
     createObjectURL = (\<lambda>c. Some (js ''blob:1'')) \<rparr>"

text \<open>The same environment with a script load that never settles: no event reaches the loop.\<close>

definition stalledEnv :: env where
  "stalledEnv = sampleEnv\<lparr>initEvents := []\<rparr>"


text \<open>The world after a first, successful bootstrap.\<close>

definition readyWorld :: world where
  "readyWorld = \<lparr> x2tModule = Some 1, isReady = True, initPromise = Some 0,
     hasScriptLoaded = True, windowModule = Some 1, windowXLSX = False,
     promises = [Fulfilled 1], attempt = NoAttempt, returned = [],
     dirs = WORKING_DIRS, files = [],
     effects = [DoInitialize, ScriptOnLoad, RuntimeWait] @ map Mkdir WORKING_DIRS \<rparr>"

text \<open>Sample files, and the name and type of a result when there is one.\<close>

definition sampleFile :: "string \<Rightarrow> byte list \<Rightarrow> jsfile" where
  "sampleFile n d = \<lparr> file_name = js n, file_type = [], file_bytes = d \<rparr>"


text \<open>A sample request and a window with a live session of a given file type.\<close>

definition sampleConfig :: "string \<Rightarrow> editorConfig" where
  "sampleConfig t = \<lparr> cfgFileName = js ''doc'', cfgFileType = js t, cfgBinData = Bytes [],
     cfgMedia = None \<rparr>"

definition liveSession :: "string \<Rightarrow> window" where
  "liveSession t = \<lparr> editor = Some \<lparr> sessionFileType = js t, destroyThrows = False \<rparr>,
     iframeChildren = 1 \<rparr>"

section \<open>Properties of the string operations\<close>

lemma split_str_nonempty: "split_str sep xs \<noteq> []"
  by (induction xs) (auto split: list.splits)

lemma join_split_str: "join_str sep (split_str sep xs) = xs"
proof (induction xs)
  case Nil
  then show ?case by simp
next
  case (Cons c cs)
  obtain p ps where ps: "split_str sep cs = p # ps"
    using split_str_nonempty [of sep cs] by (cases "split_str sep cs") auto
  with Cons show ?case by (cases ps) auto
qed

lemma split_str_no_sep: "sep \<notin> set e \<Longrightarrow> split_str sep e = [e]"
  by (induction e) auto

lemma split_str_append: "sep \<notin> set e \<Longrightarrow> split_str sep (n @ sep # e) = split_str sep n @ [e]"
proof (induction n)
  case Nil
  then show ?case by (simp add: split_str_no_sep)
next
  case (Cons c cs)
  obtain p ps where ps: "split_str sep cs = p # ps"
    using split_str_nonempty [of sep cs] by (cases "split_str sep cs") auto
  with Cons show ?case by auto
qed

lemma baseName_append: "dot \<notin> set e \<Longrightarrow> baseName (n @ dot # e) = n"
  by (simp add: baseName_def split_str_append join_split_str)

lemma pop_snoc: "pop (xs @ [e]) = Some e"
  by (cases xs) (simp_all add: pop_def)

lemma extension_append:
  "dot \<notin> set e \<Longrightarrow> extension (n @ dot # e) = (if e = [] then js ''bin'' else e)"
  by (simp add: extension_def split_str_append pop_snoc)

lemma all_dropWhile_iff: "(\<forall>x \<in> set (dropWhile P s). P x) \<longleftrightarrow> (\<forall>x \<in> set s. P x)"
  by (induction s) auto

lemma trim_str_empty_iff: "trim_str s = [] \<longleftrightarrow> (\<forall>c \<in> set s. isWhiteSpace c)"
  by (simp add: trim_str_def all_dropWhile_iff)

lemma set_trim_str: "set (trim_str s) \<subseteq> set s"
proof
  fix x assume "x \<in> set (trim_str s)"
  then have "x \<in> set (dropWhile isWhiteSpace (rev (dropWhile isWhiteSpace s)))"
    by (simp add: trim_str_def)
  then have "x \<in> set (rev (dropWhile isWhiteSpace s))" by (rule set_dropWhileD)
  then have "x \<in> set (dropWhile isWhiteSpace s)" by simp
  then show "x \<in> set s" by (rule set_dropWhileD)
qed

lemma length_trim_str: "length (trim_str s) \<le> length s"
  unfolding trim_str_def 
  by (metis length_dropWhile_le length_rev order_trans)

lemma trim_str_hd_fixed:
  "b \<noteq> [] \<Longrightarrow> \<not> isWhiteSpace (hd b) \<Longrightarrow> trim_str b = rev (dropWhile isWhiteSpace (rev b))"
  by (cases b) (auto simp: trim_str_def)

lemma trim_str_hd_nonempty:
  "b \<noteq> [] \<Longrightarrow> \<not> isWhiteSpace (hd b) \<Longrightarrow> trim_str b \<noteq> []"
  by (cases b) (auto simp: trim_str_empty_iff)

lemma hd_trim_str: "trim_str s \<noteq> [] \<Longrightarrow> \<not> isWhiteSpace (hd (trim_str s))"
proof -
  assume ne: "trim_str s \<noteq> []"
  let ?d = "dropWhile isWhiteSpace s"
  have dne: "?d \<noteq> []" using ne by (auto simp: trim_str_def all_dropWhile_iff)
  obtain x xs where d: "?d = x # xs" using dne by (cases ?d) auto
  have nx: "\<not> isWhiteSpace x" using hd_dropWhile [OF dne] d by simp
  have "dropWhile isWhiteSpace (rev xs @ [x]) = dropWhile isWhiteSpace (rev xs) @ [x]"
    using nx by (simp add: dropWhile_append)
  then show ?thesis using d nx by (simp add: trim_str_def)
qed


lemma dot_not_white: "\<not> isWhiteSpace dot"
  by (simp add: isWhiteSpace_def dot_def)

lemma trim_str_with_dot: "trim_str (n @ dot # e) \<noteq> []"
  using dot_not_white by (auto simp: trim_str_empty_iff)

lemma sanitize_dotted:
  "dot \<notin> set e \<Longrightarrow>
     sanitizeFileName (n @ dot # e) = take 200 (sanitized n) @ dot # (if e = [] then js ''bin'' else e)"
  by (simp add: sanitizeFileName_def trim_str_with_dot baseName_append extension_append
      sanitized_def Let_def)

lemma sanitize_dotless:
  "dot \<notin> set x \<Longrightarrow> trim_str x \<noteq> [] \<Longrightarrow> sanitizeFileName x = js ''file'' @ dot # x"
proof -
  assume nd: "dot \<notin> set x" and nb: "trim_str x \<noteq> []"
  have x: "x \<noteq> []" using nb by (auto simp: trim_str_def)
  have b: "baseName x = []" using nd by (simp add: baseName_def split_str_no_sep)
  have e: "extension x = x" using nd x by (simp add: extension_def split_str_no_sep pop_def)
  have s: "stripName [] = []" by (simp add: stripName_def replaceReserved_def isReserved_def)
  have t: "trim_str [] = []" by (simp add: trim_str_def)
  have f: "take 200 (js ''file'') = js ''file''" by (simp add: js_def)
  show ?thesis using nb by (simp add: sanitizeFileName_def sanitized_def b e s t f)
qed

lemma stripName_clean: "c \<in> set (stripName n) \<Longrightarrow> clean c"
  by (auto simp: stripName_def replaceReserved_def clean_def split: if_splits)

lemma file_clean: "c \<in> set (js ''file'') \<Longrightarrow> clean c"
  by (auto simp: js_def clean_def isIllegalChar_def isControlChar_def isUnsafeChar_def)

lemma file_props: "js ''file'' \<noteq> []" "\<not> isWhiteSpace (hd (js ''file''))" "hd (js ''file'') \<noteq> dot"
   "length (js ''file'') \<le> 200" "trim_str (js ''file'') = js ''file''" "dot \<notin> set (js ''file'')"
  by (simp_all add: js_def isWhiteSpace_def dot_def trim_str_def)

lemma bin_props: "js ''bin'' \<noteq> []" "dot \<notin> set (js ''bin'')"
  by (simp_all add: js_def dot_def)

lemma sanitized_props:
  "sanitized n \<noteq> []" "\<not> isWhiteSpace (hd (sanitized n))" "\<forall>c \<in> set (sanitized n). clean c"
  using file_props(1,2) file_clean hd_trim_str [of "stripName n"]
    set_trim_str [of "stripName n"] stripName_clean [of _ n]
  by (auto simp: sanitized_def)

lemma take_sanitized_props:
  "take 200 (sanitized n) \<noteq> []" "\<not> isWhiteSpace (hd (take 200 (sanitized n)))"
  "\<forall>c \<in> set (take 200 (sanitized n)). clean c" "length (take 200 (sanitized n)) \<le> 200"
  using sanitized_props [of n] by (auto dest: in_set_takeD)

lemma stripName_of_clean:
  "\<forall>c \<in> set b. clean c \<Longrightarrow> stripName b = (if isReserved b then [] else b)"
proof -
  assume c: "\<forall>c \<in> set b. clean c"
  have 1: "filter (\<lambda>c. \<not> isIllegalChar c) b = b" using c by (auto simp: clean_def)
  have 2: "filter (\<lambda>c. \<not> isControlChar c) b = b" using c by (auto simp: clean_def)
  have 3: "filter (\<lambda>c. \<not> isUnsafeChar c) b = b" using c by (auto simp: clean_def)
  show ?thesis by (simp add: stripName_def 1 2 replaceReserved_def 3)
qed

lemma extension_props: "extension x \<noteq> []" "dot \<notin> set (extension x)"
proof -
  have "dot \<notin> set (last (split_str dot x))"
  proof (cases "dot \<in> set x")
    case True
    then obtain n e where "x = n @ dot # e" "dot \<notin> set e" by (auto dest: split_list_last)
    then show ?thesis by (simp add: split_str_append)
  next
    case False
    then show ?thesis by (simp add: split_str_no_sep)
  qed
  then show "extension x \<noteq> []" "dot \<notin> set (extension x)"
    using bin_props split_str_nonempty [of dot x]
    by (auto simp: extension_def pop_def split: list.splits)
qed

lemma sanitize_shape:
  "\<exists>b e. sanitizeFileName x = b @ dot # e \<and> e \<noteq> [] \<and> dot \<notin> set e \<and> b \<noteq> [] \<and>
      \<not> isWhiteSpace (hd b) \<and> length b \<le> 200 \<and> (\<forall>c \<in> set b. clean c)"
proof (cases "trim_str x = []")
  case True
  have "sanitizeFileName x = js ''file'' @ dot # js ''bin''"
    using True by (simp add: sanitizeFileName_def js_def dot_def)
  then show ?thesis using file_props bin_props file_clean by blast
next
  case False
  have "sanitizeFileName x = take 200 (sanitized (baseName x)) @ dot # extension x"
    using False by (simp add: sanitizeFileName_def sanitized_def Let_def)
  then show ?thesis using take_sanitized_props [of "baseName x"] extension_props [of x] by blast
qed

lemma sanitize_again:
  assumes "e \<noteq> []" "dot \<notin> set e" "b \<noteq> []" "\<not> isWhiteSpace (hd b)" "length b \<le> 200"
    "\<forall>c \<in> set b. clean c"
  shows "sanitizeFileName (b @ dot # e) = b @ dot # e \<longleftrightarrow> \<not> isReserved b \<and> trim_str b = b"
proof (cases "isReserved b")
  case True
  then have "stripName b = []" using assms by (simp add: stripName_of_clean)
  then have c: "sanitized b = js ''file''" by (simp add: sanitized_def trim_str_def)
  have "hd b = dot" using True assms(3) by (cases b) (auto simp: isReserved_def)
  then have "b \<noteq> js ''file''" using file_props(3) by auto
  then show ?thesis using True assms c file_props(4) by (simp add: sanitize_dotted)
next
  case False
  then have s: "stripName b = b" using assms by (simp add: stripName_of_clean)
  have ne: "trim_str b \<noteq> []" using assms by (simp add: trim_str_hd_nonempty)
  have c: "sanitized b = trim_str b" using s ne by (simp add: sanitized_def)
  have "length (trim_str b) \<le> 200" using length_trim_str [of b] assms(5) by simp
  then have "take 200 (trim_str b) = trim_str b" by simp
  then show ?thesis using False assms c by (auto simp: sanitize_dotted)
qed


lemma of_char_nat_less: "(of_char x :: nat) < 256"
proof -
  have "(of_char x :: nat) mod 256 < 256" by (rule mod_less_divisor) simp
  then show ?thesis by (simp only: of_char_mod_256)
qed

lemma unat_of_char_16: "unat (of_char x :: 16 word) = of_char x"
proof -
  have lt: "(of_char x :: nat) < 65536" by (rule order_less_trans [OF of_char_nat_less]) simp
  have m: "(of_char x :: nat) mod 65536 = of_char x" using lt by (rule mod_less)
  have "unat (of_nat (of_char x) :: 16 word) = of_char x"
    by (simp add: unat_of_nat take_bit_eq_mod m)
  then show ?thesis by (simp only: of_nat_of_char)
qed

lemma of_char_16_inj: "(of_char c :: 16 word) = of_char d \<longleftrightarrow> c = d"
proof
  assume eq: "(of_char c :: 16 word) = of_char d"
  then have "unat (of_char c :: 16 word) = unat (of_char d :: 16 word)" by (rule arg_cong)
  then have "(of_char c :: nat) = of_char d" by (simp only: unat_of_char_16)
  then show "c = d" by (rule of_char_eqI)
next
  assume "c = d"
  then show "(of_char c :: 16 word) = of_char d" by (rule arg_cong)
qed


lemma js_eq_iff: "js a = js b \<longleftrightarrow> a = b"
  unfolding js_def by (simp add: inj_map_eq_map inj_on_def of_char_16_inj)

lemma js_append: "js a @ js b = js (a @ b)"
  by (simp add: js_def)

lemma js_take_drop:
  "take n (js s) = js (take n s)" "drop n (js s) = js (drop n s)" "length (js s) = length s"
  by (simp_all add: js_def take_map drop_map)

section \<open>File-name sanitization: claims C8 and C10\<close>

lemmas sanitize_eval =
  sanitizeFileName_def sanitized_def js_def trim_str_def isWhiteSpace_def extension_def
  baseName_def dot_def pop_def stripName_def replaceReserved_def isReserved_def
  isIllegalChar_def isControlChar_def isUnsafeChar_def

text \<open>
  C8, as stated: sanitization is idempotent on every string. It is not: on \<open>!..txt\<close> the
  base name \<open>!.\<close> passes the reserved-name test, which runs before the unsafe characters
  are removed, and comes out as \<open>.\<close>; the result \<open>..txt\<close> has a base name of dots only,
  which a second pass replaces by \<open>file\<close>.
\<close>

theorem sanitizeFileName_not_idempotent:
  "sanitizeFileName (sanitizeFileName (js ''!..txt'')) \<noteq> sanitizeFileName (js ''!..txt'')"
  by (simp add: sanitize_eval)

text \<open>
  A second pass returns the first result exactly when the base name of that result (the
  part before its last dot) is not made of dots only and has no white space at its end
  (truncation to 200 code units happens after trimming and can leave some there).
\<close>

lemma sanitizeFileName_twice_iff:
  "sanitizeFileName (sanitizeFileName x) = sanitizeFileName x \<longleftrightarrow>
     \<not> isReserved (baseName (sanitizeFileName x)) \<and>
     trim_str (baseName (sanitizeFileName x)) = baseName (sanitizeFileName x)"
proof -
  obtain b e where y: "sanitizeFileName x = b @ dot # e" and p: "e \<noteq> []" "dot \<notin> set e" "b \<noteq> []"
      "\<not> isWhiteSpace (hd b)" "length b \<le> 200" "\<forall>c \<in> set b. clean c"
    using sanitize_shape [of x] by blast
  have "baseName (sanitizeFileName x) = b" using y p by (simp add: baseName_append)
  then show ?thesis using sanitize_again [OF p] y by simp
qed

text \<open>
  C8, amended: sanitization is idempotent on every string whose sanitized form has a base
  name (the part before its last dot) that is not made of dots only and does not end in
  white space.
\<close>

theorem sanitizeFileName_idempotent_on_settled_names:
  assumes "\<not> isReserved (baseName (sanitizeFileName x))"
    and "trim_str (baseName (sanitizeFileName x)) = baseName (sanitizeFileName x)"
  shows "sanitizeFileName (sanitizeFileName x) = sanitizeFileName x"
  using assms sanitizeFileName_twice_iff [of x] by blast

theorem sanitizeFileName_idempotent_on_settled_names_witness:
  "\<not> isReserved (baseName (sanitizeFileName (js ''Report.docx''))) \<and>
   trim_str (baseName (sanitizeFileName (js ''Report.docx''))) =
     baseName (sanitizeFileName (js ''Report.docx'')) \<and>
   sanitizeFileName (sanitizeFileName (js ''Report.docx'')) = sanitizeFileName (js ''Report.docx'')"
proof -
  have r: "\<not> isReserved (baseName (sanitizeFileName (js ''Report.docx'')))"
    "trim_str (baseName (sanitizeFileName (js ''Report.docx''))) =
       baseName (sanitizeFileName (js ''Report.docx''))"
    by (simp_all add: sanitize_eval)
  show ?thesis using r sanitizeFileName_idempotent_on_settled_names [OF r] by blast
qed

text \<open>
  C10, as stated: a missing extension is replaced by \<open>bin\<close>. For a name without a dot
  \<open>split\<close> yields one part, which \<open>pop\<close> takes as the extension: \<open>README\<close> becomes
  \<open>file.README\<close>, not \<open>README.bin\<close>.
\<close>

theorem sanitizeFileName_missing_extension:
  "sanitizeFileName (js ''README'') = js ''file.README'' \<and>
   sanitizeFileName (js ''README'') \<noteq> js ''README.bin''"
  by (simp add: sanitize_eval)

text \<open>
  C10, amended: for every file name with a dot, \<open>n\<close> being the part before the last dot and
  \<open>e\<close> the part after it, the result is the filtered, trimmed and truncated form of \<open>n\<close>
  (none of the illegal, control or unsafe code units is left in it, and \<open>file\<close> stands in
  for an empty one), a dot, and \<open>e\<close> as it is, whatever code units it holds; an empty \<open>e\<close>
  is replaced by \<open>bin\<close>.
\<close>

theorem sanitizeFileName_extension_verbatim:
  assumes "dot \<notin> set e"
  shows "sanitizeFileName (n @ dot # e) =
           take 200 (sanitized n) @ dot # (if e = [] then js ''bin'' else e) \<and>
         (\<forall>c \<in> set (take 200 (sanitized n)). clean c) \<and>
         length (take 200 (sanitized n)) \<le> 200"
  using assms take_sanitized_props [of n] by (simp add: sanitize_dotted)

theorem sanitizeFileName_extension_verbatim_witness:
  "dot \<notin> set (js ''t/x'') \<and>
   sanitizeFileName (js ''a?b'' @ dot # js ''t/x'') = js ''ab.t/x'' \<and>
   sanitizeFileName (js ''abc'' @ dot # []) = js ''abc.bin''"
proof -
  have h: "dot \<notin> set (js ''t/x'')" by (simp add: js_def dot_def)
  have h0: "dot \<notin> set []" by simp
  have s: "take 200 (sanitized (js ''a?b'')) = js ''ab''"
    "take 200 (sanitized (js ''abc'')) = js ''abc''"
    by (simp_all add: sanitize_eval)
  show ?thesis
    using h sanitizeFileName_extension_verbatim [OF h, of "js ''a?b''"]
      sanitizeFileName_extension_verbatim [OF h0, of "js ''abc''"] s
    by (simp add: js_def dot_def)
qed

section \<open>Engine initialization: claims C1 and C2\<close>

lemma mkdir_fields [simp]:
  "x2tModule (mkdir d w) = x2tModule w" "isReady (mkdir d w) = isReady w"
  "initPromise (mkdir d w) = initPromise w" "hasScriptLoaded (mkdir d w) = hasScriptLoaded w"
  "windowModule (mkdir d w) = windowModule w" "windowXLSX (mkdir d w) = windowXLSX w"
  "promises (mkdir d w) = promises w" "attempt (mkdir d w) = attempt w"
  "returned (mkdir d w) = returned w" "files (mkdir d w) = files w"
  by (simp_all add: mkdir_def Let_def)

lemma cwd_fields [simp]:
  "x2tModule (createWorkingDirectories w) = x2tModule w"
  "isReady (createWorkingDirectories w) = isReady w"
  "initPromise (createWorkingDirectories w) = initPromise w"
  "hasScriptLoaded (createWorkingDirectories w) = hasScriptLoaded w"
  "windowModule (createWorkingDirectories w) = windowModule w"
  "windowXLSX (createWorkingDirectories w) = windowXLSX w"
  "promises (createWorkingDirectories w) = promises w"
  "attempt (createWorkingDirectories w) = attempt w"
  "returned (createWorkingDirectories w) = returned w"
  "files (createWorkingDirectories w) = files w"
  by (simp_all add: createWorkingDirectories_def WORKING_DIRS_def)

lemma settle_fields [simp]:
  "x2tModule (settle p v w) = x2tModule w" "isReady (settle p v w) = isReady w"
  "initPromise (settle p v w) = initPromise w" "hasScriptLoaded (settle p v w) = hasScriptLoaded w"
  "windowModule (settle p v w) = windowModule w" "windowXLSX (settle p v w) = windowXLSX w"
  "attempt (settle p v w) = attempt w" "returned (settle p v w) = returned w"
  "files (settle p v w) = files w" "dirs (settle p v w) = dirs w" "effects (settle p v w) = effects w"
  "length (promises (settle p v w)) = length (promises w)"
  by (simp_all add: settle_def)

lemma settle_nth:
  "q < length (promises w) \<Longrightarrow> promises (settle p v w) ! q =
     (if q = p \<and> promises w ! p = Pending then v else promises w ! q)"
  by (simp add: settle_def)

lemma settled0_settle: "settled0 w \<Longrightarrow> settled0 (settle p v w)"
  by (auto simp: settled0_def settle_def nth_list_update)

lemma settled0_step: "settled0 w \<Longrightarrow> settled0 (step e w)"
proof (cases e)
  case CallInitialize
  assume "settled0 w"
  then show ?thesis using CallInitialize
    by (auto simp: settled0_def initialize_def doInitialize_def promiseExecutor_def Let_def
        settle_def nth_append nth_list_update split: option.splits)
next
  case (ScriptLoaded m)
  assume "settled0 w"
  then show ?thesis using ScriptLoaded
    by (auto simp: settled0_def promiseExecutor_def settle_def nth_list_update
        split: attempt.splits option.splits)
next
  case ScriptFailed
  assume "settled0 w"
  then show ?thesis using ScriptFailed
    by (auto simp: settled0_def settle_def nth_list_update split: attempt.splits)
next
  case RuntimeInitialized
  assume "settled0 w"
  then show ?thesis using RuntimeInitialized
    by (auto simp: settled0_def settle_def nth_list_update split: attempt.splits)
next
  case TimeoutFired
  assume "settled0 w"
  then show ?thesis using TimeoutFired
    by (auto simp: settled0_def settle_def nth_list_update Let_def split: attempt.splits)
qed

lemma settled0_run: "settled0 w \<Longrightarrow> settled0 (run evs w)"
  by (induction evs arbitrary: w) (auto simp: settled0_step)

lemma inflight_step:
  assumes "inflight w"
  shows "(inflight (step e w) \<and>
          returned (step e w) = returned w @ (if e = CallInitialize then [Awaits 0] else [])) \<or>
         settled0 (step e w)"
proof (cases e)
  case CallInitialize
  then show ?thesis using assms by (auto simp: inflight_def initialize_def split: attempt.splits)
next
  case (ScriptLoaded m)
  then show ?thesis using assms
    by (cases m) (auto simp: inflight_def settled0_def promiseExecutor_def settle_def
        nth_Cons' split: attempt.splits)
next
  case ScriptFailed
  then show ?thesis using assms
    by (auto simp: inflight_def settled0_def settle_def nth_Cons' split: attempt.splits)
next
  case RuntimeInitialized
  then show ?thesis using assms
    by (auto simp: inflight_def settled0_def settle_def nth_Cons' split: attempt.splits)
next
  case TimeoutFired
  then show ?thesis using assms
    by (auto simp: inflight_def settled0_def settle_def Let_def nth_Cons' split: attempt.splits)
qed

lemma inflight_run:
  "inflight w \<Longrightarrow>
     (inflight (run evs w) \<and>
      returned (run evs w) = returned w @ replicate (count_list evs CallInitialize) (Awaits 0)) \<or>
     settled0 (run evs w)"
proof (induction evs arbitrary: w)
  case Nil
  then show ?case by simp
next
  case (Cons e es)
  from inflight_step [OF Cons.prems, of e] show ?case
  proof
    assume a: "inflight (step e w) \<and>
          returned (step e w) = returned w @ (if e = CallInitialize then [Awaits 0] else [])"
    from Cons.IH [of "step e w"] a show ?thesis
      by (auto simp: replicate_append_same)
  next
    assume "settled0 (step e w)"
    then show ?thesis by (simp add: settled0_run)
  qed
qed

lemma first_call: "inflight (step CallInitialize fresh)" "returned (step CallInitialize fresh) = [Awaits 0]"
  by (simp_all add: inflight_def fresh_def initialize_def doInitialize_def Let_def)

lemma coherent_step: "coherent w \<Longrightarrow> coherent (step e w)"
proof (cases e)
  case CallInitialize
  assume "coherent w"
  then show ?thesis using CallInitialize
    by (auto simp: coherent_def initialize_def doInitialize_def promiseExecutor_def Let_def
        settle_def list_all_iff split: option.splits settlement.splits dest!: set_update_subset_insert [THEN subsetD])
next
  case (ScriptLoaded m)
  assume "coherent w"
  then show ?thesis using ScriptLoaded
    by (auto simp: coherent_def promiseExecutor_def settle_def list_all_iff
        split: attempt.splits option.splits settlement.splits dest!: set_update_subset_insert [THEN subsetD])
next
  case ScriptFailed
  assume "coherent w"
  then show ?thesis using ScriptFailed
    by (auto simp: coherent_def settle_def list_all_iff split: attempt.splits settlement.splits
        dest!: set_update_subset_insert [THEN subsetD])
next
  case RuntimeInitialized
  assume "coherent w"
  then show ?thesis using RuntimeInitialized
    by (auto simp: coherent_def settle_def list_all_iff split: attempt.splits settlement.splits
        dest!: set_update_subset_insert [THEN subsetD])
next
  case TimeoutFired
  assume "coherent w"
  then show ?thesis using TimeoutFired
    by (auto simp: coherent_def settle_def list_all_iff Let_def split: attempt.splits settlement.splits
        dest!: set_update_subset_insert [THEN subsetD])
qed


lemma coherent_run: "coherent w \<Longrightarrow> coherent (run evs w)"
  by (induction evs arbitrary: w) (auto simp: coherent_step)

lemma coherent_fresh: "coherent fresh"
  by (simp add: coherent_def fresh_def)

lemma coherent_fulfilled:
  assumes "coherent w" "callerOutcome w (Awaits p) = Fulfilled h"
  shows "isReady w \<and> x2tModule w = Some h \<and> initialize w = (Immediate h, w)"
proof -
  have p: "p < length (promises w)" "promises w ! p = Fulfilled h"
    using assms(2) by (auto simp: callerOutcome_def split: if_splits)
  then have "Fulfilled h \<in> set (promises w)" by (metis nth_mem)
  then have "isReady w \<and> x2tModule w = Some h"
    using assms(1) by (auto simp: coherent_def list_all_iff)
  then show ?thesis by (simp add: initialize_def)
qed


lemmas world_eval =
  fresh_def initialize_def doInitialize_def promiseExecutor_def callerOutcome_def settle_def
  createWorkingDirectories_def WORKING_DIRS_def mkdir_def awaitInitialize_def Let_def

text \<open>
  C2: after a timeout of the bootstrap the pending-initialization promise should be cleared,
  so that the next call starts a fresh bootstrap. The code at that input: the first call
  starts the bootstrap, the script loads, the timer fires before the runtime is ready. The
  call is rejected with the timeout error, but \<open>initPromise\<close> still holds the rejected
  promise: a second call is handed that promise and no second bootstrap is started.
\<close>

theorem timeout_leaves_initPromise:
  "(let w = run [CallInitialize, ScriptLoaded (Some 1), TimeoutFired, CallInitialize] fresh
    in callerOutcome w (Awaits 0) = Rejected InitTimeout \<and> initPromise w = Some 0 \<and>
       returned w = [Awaits 0, Awaits 0] \<and> count_list (effects w) DoInitialize = 1)"
  by (simp add: world_eval)

text \<open>The sibling path, a failing script load, does reset \<open>initPromise\<close>: the second call
  starts a second bootstrap.\<close>

lemma script_failure_resets_initPromise:
  "(let w = run [CallInitialize, ScriptFailed, CallInitialize] fresh
    in callerOutcome w (Awaits 0) = Rejected ScriptLoadError \<and> initPromise w = Some 1 \<and>
       returned w = [Awaits 0, Awaits 1] \<and> count_list (effects w) DoInitialize = 2)"
  by (simp add: world_eval)


text \<open>
  C1: \<open>initialize()\<close> is single-flight and idempotent. From the fresh converter, take a first
  call followed by any events \<open>evs\<close>, whatever calls and callbacks they are, and then any
  later events. As long as the first caller has not settled, exactly one \<open>doInitialize\<close>
  and one script load have been started, with at most one wait for the runtime; every call
  made so far was handed promise 0, so all callers observe the same outcome at any later
  time. Once that outcome is a module, the converter is ready with that module cached, and
  a further call returns it at once and changes nothing.
\<close>

theorem initialize_single_flight:
  "let w = run (CallInitialize # evs) fresh; w' = run later w in
     (callerOutcome w (Awaits 0) = Pending \<longrightarrow>
        count_list (effects w) DoInitialize = 1 \<and>
        count_list (effects w) ScriptOnLoad = 1 \<and>
        count_list (effects w) RuntimeWait \<le> 1 \<and>
        returned w = replicate (Suc (count_list evs CallInitialize)) (Awaits 0) \<and>
        (\<forall>r \<in> set (returned w). callerOutcome w' r = callerOutcome w' (Awaits 0))) \<and>
     (\<forall>h. callerOutcome w' (Awaits 0) = Fulfilled h \<longrightarrow>
        isReady w' \<and> x2tModule w' = Some h \<and> initialize w' = (Immediate h, w'))"
proof -
  let ?w = "run (CallInitialize # evs) fresh"
  let ?w' = "run later ?w"
  have a: "callerOutcome ?w (Awaits 0) = Pending \<Longrightarrow> inflight ?w \<and>
      returned ?w = replicate (Suc (count_list evs CallInitialize)) (Awaits 0)"
  proof -
    assume pend: "callerOutcome ?w (Awaits 0) = Pending"
    have "settled0 ?w \<Longrightarrow> False"
      using pend by (auto simp: callerOutcome_def settled0_def)
    then show ?thesis
      using inflight_run [OF first_call(1), of evs] first_call(2)
      by (auto simp: replicate_append_same)
  qed
  have b: "inflight ?w \<Longrightarrow> count_list (effects ?w) DoInitialize = 1 \<and>
        count_list (effects ?w) ScriptOnLoad = 1 \<and> count_list (effects ?w) RuntimeWait \<le> 1"
    by (auto simp: inflight_def split: attempt.splits)
  have c: "coherent ?w'" by (intro coherent_run coherent_fresh)
  show ?thesis
    unfolding Let_def using a b coherent_fulfilled [OF c] by auto
qed

theorem initialize_single_flight_witness:
  "callerOutcome (run [CallInitialize, CallInitialize, ScriptLoaded (Some 7), CallInitialize] fresh)
     (Awaits 0) = Pending \<and>
   returned (run [CallInitialize, CallInitialize, ScriptLoaded (Some 7), CallInitialize] fresh) =
     [Awaits 0, Awaits 0, Awaits 0] \<and>
   callerOutcome (run [RuntimeInitialized]
       (run [CallInitialize, CallInitialize, ScriptLoaded (Some 7), CallInitialize] fresh))
     (Awaits 0) = Fulfilled 7 \<and>
   fst (initialize (run [RuntimeInitialized]
       (run [CallInitialize, CallInitialize, ScriptLoaded (Some 7), CallInitialize] fresh))) =
     Immediate 7"
proof -
  let ?evs = "[CallInitialize, ScriptLoaded (Some 7), CallInitialize]"
  have p: "callerOutcome (run (CallInitialize # ?evs) fresh) (Awaits 0) = Pending"
    by (simp add: fresh_def initialize_def doInitialize_def promiseExecutor_def callerOutcome_def
        Let_def)
  have f: "callerOutcome (run [RuntimeInitialized] (run (CallInitialize # ?evs) fresh)) (Awaits 0)
      = Fulfilled 7"
    by (simp add: fresh_def initialize_def doInitialize_def promiseExecutor_def callerOutcome_def
        settle_def Let_def)
  show ?thesis
    using p f initialize_single_flight [of ?evs "[RuntimeInitialized]"]
    unfolding Let_def by (simp add: numeral_3_eq_3)
qed


section \<open>Document conversion: claims C5, C6 and C9\<close>

lemma await_sample: "awaitInitialize sampleEnv fresh = (Fulfilled 1, readyWorld)"
  by (simp add: world_eval sampleEnv_def readyWorld_def js_def)

lemma requestEffect_mkdir:
  "filter requestEffect (effects (mkdir d w)) = filter requestEffect (effects w)"
  by (simp add: mkdir_def Let_def)

lemma requestEffect_cwd:
  "filter requestEffect (effects (createWorkingDirectories w)) = filter requestEffect (effects w)"
  by (simp add: createWorkingDirectories_def WORKING_DIRS_def requestEffect_mkdir)

lemma requestEffect_step:
  "filter requestEffect (effects (step e w)) = filter requestEffect (effects w)"
proof (cases e)
  case CallInitialize
  then show ?thesis
    by (simp add: initialize_def doInitialize_def promiseExecutor_def Let_def
        split: option.splits)
next
  case (ScriptLoaded m)
  then show ?thesis by (simp add: promiseExecutor_def split: attempt.splits option.splits)
next
  case ScriptFailed
  then show ?thesis by (simp split: attempt.splits)
next
  case RuntimeInitialized
  then show ?thesis by (simp add: requestEffect_cwd split: attempt.splits)
next
  case TimeoutFired
  then show ?thesis by (simp add: Let_def split: attempt.splits)
qed

lemma requestEffect_run:
  "filter requestEffect (effects (run evs w)) = filter requestEffect (effects w)"
  by (induction evs arbitrary: w) (simp_all add: requestEffect_step)

lemma requestEffect_await:
  "filter requestEffect (effects (snd (awaitInitialize en w))) = filter requestEffect (effects w)"
proof -
  have "filter requestEffect (effects (snd (initialize w))) = filter requestEffect (effects w)"
    by (simp add: initialize_def doInitialize_def promiseExecutor_def Let_def
        split: option.splits)
  then show ?thesis by (simp add: awaitInitialize_def split_def Let_def requestEffect_run)
qed

lemma await_ready:
  "isReady w \<Longrightarrow> x2tModule w = Some m \<Longrightarrow> fst (awaitInitialize en w) = Fulfilled m"
  by (simp add: awaitInitialize_def initialize_def callerOutcome_def)

lemma detect_sample:
  "detectExtension sampleEnv (sampleFile ''a.xyz'' d) = js ''xyz''"
  "detectExtension sampleEnv (sampleFile ''data.csv'' d) = js ''csv''"
  "detectExtension sampleEnv (sampleFile ''a&b.csv'' d) = js ''csv''"
  by (simp_all add: detectExtension_def sampleEnv_def sampleFile_def js_def dot_def pop_def)

lemma lower_sample:
  "toLowerCase sampleEnv (js ''xyz'') = js ''xyz''" "toLowerCase sampleEnv (js ''csv'') = js ''csv''"
  by (simp_all add: sampleEnv_def asciiLower_def js_def)

lemma map_sample:
  "DOCUMENT_TYPE_MAP sampleEnv (js ''xyz'') = None"
  "DOCUMENT_TYPE_MAP sampleEnv (js ''csv'') = Some Cell"
  by (simp_all add: sampleEnv_def js_eq_iff)
















text \<open>
  C5, as stated: for an extension outside the table \<open>convertDocument\<close> fails before any
  engine interaction, with no engine initialization. The code awaits \<open>initialize()\<close> before
  it looks at the extension: on a fresh converter the request for \<open>a.xyz\<close> loads the
  script, waits for the runtime and creates the working directories, and only then fails.
\<close>

theorem unsupported_initializes_engine:
  "DOCUMENT_TYPE_MAP sampleEnv
      (toLowerCase sampleEnv (detectExtension sampleEnv (sampleFile ''a.xyz'' [0x61]))) = None \<and>
   fst (convertDocument sampleEnv (sampleFile ''a.xyz'' [0x61]) fresh) =
      Some (Inl (UnsupportedFormat (js ''xyz''))) \<and>
   isReady (snd (convertDocument sampleEnv (sampleFile ''a.xyz'' [0x61]) fresh)) \<and>
   effects (snd (convertDocument sampleEnv (sampleFile ''a.xyz'' [0x61]) fresh)) =
      [DoInitialize, ScriptOnLoad, RuntimeWait] @ map Mkdir WORKING_DIRS"
  by (simp add: convertDocument_def await_sample getDocumentType_def detect_sample lower_sample
      map_sample readyWorld_def)

text \<open>
  C5, amended: for an extension outside the table \<open>convertDocument\<close> does nothing but await
  the initialization: it leaves the world as that leaves it, it fails with the
  unsupported-format error once the initialization has succeeded (with the initialization
  error when that failed, and not at all while it is pending), and it writes or reads no
  file, loads and calls no fallback library and does not call the engine's entry point. On
  a converter that is ready it fails with the unsupported-format error.
\<close>

theorem unsupported_after_initialize:
  assumes "DOCUMENT_TYPE_MAP en (toLowerCase en (detectExtension en file)) = None"
  shows "snd (convertDocument en file w) = snd (awaitInitialize en w) \<and>
         fst (convertDocument en file w) =
           (case fst (awaitInitialize en w) of
              Pending \<Rightarrow> None
            | Rejected e \<Rightarrow> Some (Inl e)
            | Fulfilled x2t \<Rightarrow> Some (Inl (UnsupportedFormat (detectExtension en file)))) \<and>
         filter requestEffect (effects (snd (convertDocument en file w))) =
           filter requestEffect (effects w) \<and>
         (isReady w \<and> x2tModule w \<noteq> None \<longrightarrow>
            fst (convertDocument en file w) =
              Some (Inl (UnsupportedFormat (detectExtension en file))))"
proof -
  have 1: "snd (convertDocument en file w) = snd (awaitInitialize en w)"
    using assms
    by (simp add: convertDocument_def getDocumentType_def split: prod.splits settlement.splits)
  have 2: "fst (convertDocument en file w) =
           (case fst (awaitInitialize en w) of
              Pending \<Rightarrow> None
            | Rejected e \<Rightarrow> Some (Inl e)
            | Fulfilled x2t \<Rightarrow> Some (Inl (UnsupportedFormat (detectExtension en file))))"
    using assms
    by (simp add: convertDocument_def getDocumentType_def split: prod.splits settlement.splits)
  have 3: "filter requestEffect (effects (snd (convertDocument en file w))) =
           filter requestEffect (effects w)"
    by (simp only: 1 requestEffect_await)
  have 4: "isReady w \<and> x2tModule w \<noteq> None \<longrightarrow>
            fst (convertDocument en file w) =
              Some (Inl (UnsupportedFormat (detectExtension en file)))"
    using 2 await_ready [of w _ en] by auto
  show ?thesis using 1 2 3 4 by blast
qed

theorem unsupported_after_initialize_witness:
  "DOCUMENT_TYPE_MAP sampleEnv
      (toLowerCase sampleEnv (detectExtension sampleEnv (sampleFile ''a.xyz'' [0x61]))) = None \<and>
   isReady readyWorld \<and> x2tModule readyWorld \<noteq> None \<and>
   fst (convertDocument sampleEnv (sampleFile ''a.xyz'' [0x61]) readyWorld) =
      Some (Inl (UnsupportedFormat (js ''xyz''))) \<and>
   filter requestEffect
      (effects (snd (convertDocument sampleEnv (sampleFile ''a.xyz'' [0x61]) readyWorld))) = []"
proof -
  have h: "DOCUMENT_TYPE_MAP sampleEnv
      (toLowerCase sampleEnv (detectExtension sampleEnv (sampleFile ''a.xyz'' [0x61]))) = None"
    by (simp add: detect_sample lower_sample map_sample)
  have r: "isReady readyWorld" "x2tModule readyWorld \<noteq> None"
    "filter requestEffect (effects readyWorld) = []"
    by (simp_all add: readyWorld_def WORKING_DIRS_def)
  note t = unsupported_after_initialize [OF h, of readyWorld]
  have c3: "filter requestEffect
      (effects (snd (convertDocument sampleEnv (sampleFile ''a.xyz'' [0x61]) readyWorld))) =
      filter requestEffect (effects readyWorld)"
    using t by blast
  have c4: "fst (convertDocument sampleEnv (sampleFile ''a.xyz'' [0x61]) readyWorld) =
      Some (Inl (UnsupportedFormat (detectExtension sampleEnv (sampleFile ''a.xyz'' [0x61]))))"
    using t r(1,2) by blast
  show ?thesis using h r(1,2) c3 [unfolded r(3)] c4 [unfolded detect_sample] by blast
qed


text \<open>
  C9, as stated: a CSV input of length zero makes \<open>convertDocument\<close> fail fast with an
  error. The empty test comes after \<open>await this.initialize()\<close>, and the script load that
  the bootstrap awaits is not under the timeout: on a fresh converter whose script load
  never settles the call for an empty \<open>data.csv\<close> starts the bootstrap and never fails.
\<close>

theorem empty_csv_pending_while_script_loads:
  "toLowerCase stalledEnv (detectExtension stalledEnv (sampleFile ''data.csv'' [])) = js ''csv'' \<and>
   file_bytes (sampleFile ''data.csv'' []) = [] \<and>
   fst (convertDocument stalledEnv (sampleFile ''data.csv'' []) fresh) = None \<and>
   effects (snd (convertDocument stalledEnv (sampleFile ''data.csv'' []) fresh)) =
     [DoInitialize, ScriptOnLoad]"
proof -
  have a: "fst (awaitInitialize stalledEnv fresh) = Pending"
    "effects (snd (awaitInitialize stalledEnv fresh)) = [DoInitialize, ScriptOnLoad]"
    by (simp_all add: world_eval stalledEnv_def sampleEnv_def)
  obtain o1 w1 where e: "awaitInitialize stalledEnv fresh = (o1, w1)"
    by (cases "awaitInitialize stalledEnv fresh")
  have o: "o1 = Pending" and w: "effects w1 = [DoInitialize, ScriptOnLoad]"
    using a e by simp_all
  have c: "convertDocument stalledEnv (sampleFile ''data.csv'' []) fresh = (None, w1)"
    by (simp add: convertDocument_def e o)
  have d: "toLowerCase stalledEnv (detectExtension stalledEnv (sampleFile ''data.csv'' [])) =
      js ''csv''"
    by (simp add: stalledEnv_def detectExtension_def sampleEnv_def sampleFile_def asciiLower_def
        js_def dot_def pop_def)
  show ?thesis using w c d by (simp add: sampleFile_def)
qed

text \<open>
  C9, amended: for a CSV input of length zero \<open>convertDocument\<close> does nothing but await the
  initialization: it leaves the world as that leaves it and adds no file write or read,
  no load or call of the fallback library and no call of the engine's entry point; as
  soon as the initialization has settled it fails with an error: the initialization error
  when that failed, else the empty-file error (the unsupported-format error when the table
  has no entry for \<open>csv\<close>). On a converter that is ready it fails with that error.
\<close>

theorem empty_csv_fails_after_initialize:
  assumes "toLowerCase en (detectExtension en file) = js ''csv''" "file_bytes file = []"
  shows "snd (convertDocument en file w) = snd (awaitInitialize en w) \<and>
         fst (convertDocument en file w) =
           (case fst (awaitInitialize en w) of
              Pending \<Rightarrow> None
            | Rejected e \<Rightarrow> Some (Inl e)
            | Fulfilled x2t \<Rightarrow>
                (case DOCUMENT_TYPE_MAP en (js ''csv'') of
                   None \<Rightarrow> Some (Inl (UnsupportedFormat (detectExtension en file)))
                 | Some t \<Rightarrow> Some (Inl (DocumentConversionFailed CsvEmpty)))) \<and>
         (fst (awaitInitialize en w) \<noteq> Pending \<longrightarrow>
            (\<exists>e. fst (convertDocument en file w) = Some (Inl e))) \<and>
         (isReady w \<and> x2tModule w \<noteq> None \<longrightarrow>
            fst (convertDocument en file w) =
              (case DOCUMENT_TYPE_MAP en (js ''csv'') of
                 None \<Rightarrow> Some (Inl (UnsupportedFormat (detectExtension en file)))
               | Some t \<Rightarrow> Some (Inl (DocumentConversionFailed CsvEmpty)))) \<and>
         filter requestEffect (effects (snd (convertDocument en file w))) =
           filter requestEffect (effects w)"
proof -
  have 1: "snd (convertDocument en file w) = snd (awaitInitialize en w)"
    using assms
    by (simp add: convertDocument_def getDocumentType_def convertBody_def Let_def
        split: prod.splits settlement.splits option.splits)
  have 2: "fst (convertDocument en file w) =
           (case fst (awaitInitialize en w) of
              Pending \<Rightarrow> None
            | Rejected e \<Rightarrow> Some (Inl e)
            | Fulfilled x2t \<Rightarrow>
                (case DOCUMENT_TYPE_MAP en (js ''csv'') of
                   None \<Rightarrow> Some (Inl (UnsupportedFormat (detectExtension en file)))
                 | Some t \<Rightarrow> Some (Inl (DocumentConversionFailed CsvEmpty))))"
    using assms
    by (simp add: convertDocument_def getDocumentType_def convertBody_def Let_def
        split: prod.splits settlement.splits option.splits)
  have 3: "filter requestEffect (effects (snd (convertDocument en file w))) =
           filter requestEffect (effects w)"
    by (simp only: 1 requestEffect_await)
  have 4: "fst (awaitInitialize en w) \<noteq> Pending \<longrightarrow>
            (\<exists>e. fst (convertDocument en file w) = Some (Inl e))"
    using 2 by (auto split: settlement.splits option.splits)
  have 5: "isReady w \<and> x2tModule w \<noteq> None \<longrightarrow>
            fst (convertDocument en file w) =
              (case DOCUMENT_TYPE_MAP en (js ''csv'') of
                 None \<Rightarrow> Some (Inl (UnsupportedFormat (detectExtension en file)))
               | Some t \<Rightarrow> Some (Inl (DocumentConversionFailed CsvEmpty)))"
    using 2 await_ready [of w _ en] by auto
  show ?thesis using 1 2 3 4 5 by blast
qed

theorem empty_csv_fails_after_initialize_witness:
  "toLowerCase sampleEnv (detectExtension sampleEnv (sampleFile ''data.csv'' [])) = js ''csv'' \<and>
   file_bytes (sampleFile ''data.csv'' []) = [] \<and>
   fst (awaitInitialize sampleEnv fresh) \<noteq> Pending \<and>
   fst (convertDocument sampleEnv (sampleFile ''data.csv'' []) fresh) =
     Some (Inl (DocumentConversionFailed CsvEmpty)) \<and>
   filter requestEffect (effects (snd (convertDocument sampleEnv (sampleFile ''data.csv'' []) fresh)))
     = [] \<and>
   isReady readyWorld \<and> x2tModule readyWorld \<noteq> None \<and>
   fst (convertDocument sampleEnv (sampleFile ''data.csv'' []) readyWorld) =
     Some (Inl (DocumentConversionFailed CsvEmpty))"
proof -
  have h: "toLowerCase sampleEnv (detectExtension sampleEnv (sampleFile ''data.csv'' [])) = js ''csv''"
    "file_bytes (sampleFile ''data.csv'' []) = []"
    by (simp add: detect_sample lower_sample, simp add: sampleFile_def)
  have a: "fst (awaitInitialize sampleEnv fresh) = Fulfilled 1"
    "DOCUMENT_TYPE_MAP sampleEnv (js ''csv'') = Some Cell"
    by (simp_all add: await_sample map_sample)
  have a4: "filter requestEffect (effects fresh) = []" by (simp add: fresh_def)
  have r: "isReady readyWorld" "x2tModule readyWorld \<noteq> None"
    by (simp_all add: readyWorld_def)
  note t = empty_csv_fails_after_initialize [OF h, of fresh]
  note t' = empty_csv_fails_after_initialize [OF h, of readyWorld]
  have c2: "fst (convertDocument sampleEnv (sampleFile ''data.csv'' []) fresh) =
     Some (Inl (DocumentConversionFailed CsvEmpty))"
    using t by (simp add: a)
  have c3: "filter requestEffect
      (effects (snd (convertDocument sampleEnv (sampleFile ''data.csv'' []) fresh))) =
      filter requestEffect (effects fresh)"
    using t by blast
  have c5: "fst (convertDocument sampleEnv (sampleFile ''data.csv'' []) readyWorld) =
     Some (Inl (DocumentConversionFailed CsvEmpty))"
    using t' [unfolded a(2) option.case] r by blast
  have p: "fst (awaitInitialize sampleEnv fresh) \<noteq> Pending" by (simp add: a(1))
  show ?thesis using h p c2 c3 [unfolded a4] r c5 by blast
qed





section \<open>Editor sessions: claim C7\<close>

lemma isPresentation_samples:
  "isPresentation (js ''pptx'')" "\<not> isPresentation (js ''docx'')"
  by (simp_all add: isPresentation_def js_eq_iff)

text \<open>
  C7: replacing a live presentation session gets the longest settling delay. The code at
  that input, a document of type \<open>docx\<close> requested while a \<open>pptx\<close> session is live: the
  tier is taken from the file type of the request, nothing records the type of the live
  session, and both delays are 250 ms, the intermediate tier, although the comment above
  them asks for more time when switching from a presentation as well as to one.
\<close>

theorem live_presentation_gets_intermediate_delay:
  "sessionFileType (the (editor (liveSession ''pptx''))) = js ''pptx'' \<and>
   delays (fst (snd (createEditorOperation (sampleConfig ''docx'') False False
      (liveSession ''pptx'')))) = [250, 250]"
  by (simp add: createEditorOperation_def sampleConfig_def liveSession_def settlingDelay_def
      isPresentation_samples Let_def)

text \<open>
  The settling delays of \<open>createEditorInstance\<close> in every case: 150 ms, once, when no
  session is live; with a live session the tier of the requested file type, once after
  \<open>destroyEditor\<close> (unless that threw) and once more; the last delay comes right before the
  session is constructed.
\<close>

lemma createEditorOperation_delays:
  "delays (fst (snd (createEditorOperation config constructorThrows newDestroyThrows win))) =
     (case editor win of
        None \<Rightarrow> [150]
      | Some old \<Rightarrow>
          (let tier = (if isPresentation (cfgFileType config) then 400 else 250)
           in if destroyThrows old then [tier] else [tier, tier])) \<and>
   (let acts = fst (snd (createEditorOperation config constructorThrows newDestroyThrows win))
    in drop (length acts - 2) acts =
         [Delay (case editor win of
                   None \<Rightarrow> 150
                 | Some old \<Rightarrow> if isPresentation (cfgFileType config) then 400 else 250),
          NewDocEditor (cfgFileType config)])"
  by (cases "editor win")
     (auto simp: createEditorOperation_def settlingDelay_def Let_def)

text \<open>The paths the code does give the tiers to: a presentation replacing a live session waits
  400 ms, a fresh create 150 ms.\<close>

lemma presentation_request_gets_longest_delay:
  "delays (fst (snd (createEditorOperation (sampleConfig ''pptx'') False False
      (liveSession ''docx'')))) = [400, 400] \<and>
   delays (fst (snd (createEditorOperation (sampleConfig ''pptx'') False False
      \<lparr> editor = None, iframeChildren = 0 \<rparr>))) = [150]"
  by (simp add: createEditorOperation_def sampleConfig_def liveSession_def settlingDelay_def
      isPresentation_samples Let_def)

section \<open>Editor operation queue: claims C3 and C4\<close>

text \<open>
  C3: operations A, B, C run one after the other in the order they were enqueued. The code
  at three calls made in the same turn: each reads the initial resolved promise before any
  of them has stored its own, the three races settle at once, and B and C are started
  while A is still running (operations 0, 1 and 2 are all started, none has completed).
\<close>

theorem queue_starts_second_before_first_completes:
  "(let q = qrun [Enqueue 0, Enqueue 1, Enqueue 2, RaceSettled 0, RaceSettled 1, RaceSettled 2]
              queue0
    in qlog q = [Started 0, Started 1, Started 2] \<and> running q = [(0, 1), (1, 2), (2, 3)])"
  by (simp add: queue0_def startOperation_def unwait_def Let_def)

text \<open>A call made after the first has stored its promise does wait for it.\<close>

lemma queue_serializes_late_enqueue:
  "(let q = qrun [Enqueue 0, RaceSettled 0, Enqueue 1, RaceSettled 1, OperationDone 0 None,
                  RaceSettled 1] queue0
    in qlog q = [Started 0, Completed 0, Started 1])"
  by (simp add: queue0_def startOperation_def unwait_def Let_def)

lemma boom_not_timeout: "js ''boom'' \<noteq> timeoutMessage"
  by (simp add: timeoutMessage_def js_eq_iff)

text \<open>
  C4: a failed operation does not poison the queue. The code at an operation that throws
  \<open>boom\<close>, followed by two more calls: the stored promise is rejected, the race of the next
  call rejects with \<open>boom\<close>, which is not the timeout message and is rethrown, so the
  next operation is never started and does not replace the stored promise; the call after
  it fails the same way.
\<close>

theorem queue_failure_rejects_next:
  "(let q = qrun [Enqueue 0, RaceSettled 0, OperationDone 0 (Some (Thrown (js ''boom''))),
                  Enqueue 1, RaceSettled 1, Enqueue 2, RaceSettled 2] queue0
    in qlog q = [Started 0, Failed 0 (Thrown (js ''boom'')),
                 RejectedUnstarted 1 (Thrown (js ''boom'')),
                 RejectedUnstarted 2 (Thrown (js ''boom''))] \<and>
       qpromises q ! editorOperationQueue q = QRejected (Thrown (js ''boom'')))"
  by (simp add: queue0_def startOperation_def unwait_def boom_not_timeout Let_def)


end
